theory Spec2Isabelle
  imports Main "HOL-Library.Word"
begin

unbundle bit_operations_syntax

section \<open>Text primitives\<close>

text \<open>
  A Python \<open>str\<close> is modelled as a \<open>string\<close>: a list of characters, one per code point.
  HOL's \<open>char\<close> holds the code points 0 to 255, so the model covers the texts made of those.
\<close>

definition LF :: char where
  "LF = CHR 0x0A"

definition CR :: char where
  "CR = CHR 0x0D"

text \<open>\<open>str.isspace\<close> on one character: the whitespace code points below 256.\<close>

definition isspace :: "char \<Rightarrow> bool" where
  "isspace c = (c \<in> {CHR 0x09, CHR 0x0A, CHR 0x0B, CHR 0x0C, CHR 0x0D,
                       CHR 0x1C, CHR 0x1D, CHR 0x1E, CHR 0x1F, CHR 0x20, CHR 0x85, CHR 0xA0})"

text \<open>\<open>s.strip()\<close>: leading and trailing whitespace removed.\<close>

definition strip :: "string \<Rightarrow> string" where
  "strip s = rev (dropWhile isspace (rev (dropWhile isspace s)))"

text \<open>\<open>s.startswith(p)\<close>.\<close>

definition startswith :: "string \<Rightarrow> string \<Rightarrow> bool" where
  "startswith s p = (take (length p) s = p)"

text \<open>\<open>p in s\<close>: \<open>p\<close> occurs in \<open>s\<close> as a substring.\<close>

fun contains :: "string \<Rightarrow> string \<Rightarrow> bool" where
  "contains [] p = (p = [])"
| "contains (c # cs) p = (startswith (c # cs) p \<or> contains cs p)"

text \<open>\<open>str(n)\<close> for a non-negative integer: its decimal digits.\<close>

definition digit_char :: "nat \<Rightarrow> char" where
  "digit_char d = ''0123456789'' ! d"

fun str_nat :: "nat \<Rightarrow> string" where
  "str_nat n = (if n < 10 then [digit_char n] else str_nat (n div 10) @ [digit_char (n mod 10)])"

declare str_nat.simps [simp del]

section \<open>Regular-expression substitution\<close>

text \<open>
  The four patterns of the source have one shape: an opening literal, the group \<open>(.+?)\<close>,
  a closing literal. \<open>lazy_dots cl s\<close> is the backtracking of \<open>.+?\<close> once its first
  character is consumed: try the closing literal here, else consume one more character
  that is not a line feed (\<open>.\<close> does not match it). It returns the rest of the group and the
  text after the match.
\<close>

fun lazy_dots :: "string \<Rightarrow> string \<Rightarrow> (string \<times> string) option" where
  "lazy_dots cl [] = None"
| "lazy_dots cl (c # cs) =
     (if startswith (c # cs) cl then Some ([], drop (length cl) (c # cs))
      else if c = LF then None
      else (case lazy_dots cl cs of
              None \<Rightarrow> None
            | Some (g, r) \<Rightarrow> Some (c # g, r)))"

text \<open>A match of \<open>op(.+?)cl\<close> anchored at the start of \<open>s\<close>: the group and the text after.\<close>

definition match_at :: "string \<Rightarrow> string \<Rightarrow> string \<Rightarrow> (string \<times> string) option" where
  "match_at op cl s =
     (if startswith s op then
        (case drop (length op) s of
           [] \<Rightarrow> None
         | c # cs \<Rightarrow>
             if c = LF then None
             else (case lazy_dots cl cs of
                     None \<Rightarrow> None
                   | Some (g, r) \<Rightarrow> Some (c # g, r)))
      else None)"

text \<open>
  \<open>re.sub\<close> for such a pattern: scan from the left; where the pattern matches, emit the
  replacement of the group and go on after the match; elsewhere copy one character.
\<close>

function re_sub :: "string \<Rightarrow> string \<Rightarrow> (string \<Rightarrow> string) \<Rightarrow> string \<Rightarrow> string" where
  "re_sub op cl repl [] = []"
| "re_sub op cl repl (c # cs) =
     (case match_at op cl (c # cs) of
        None \<Rightarrow> c # re_sub op cl repl cs
      | Some (g, r) \<Rightarrow> repl g @ re_sub op cl repl r)"
  by pat_completeness auto
termination
proof -
  have dots: "length r \<le> length s" if "lazy_dots cl s = Some (g, r)" for cl s g r
    using that
  proof (induction s arbitrary: g)
    case Nil
    then show ?case by simp
  next
    case (Cons c cs)
    then show ?case
      by (auto split: if_splits option.splits)
  qed
  have shorter: "length r < length s" if m: "match_at op cl s = Some (g, r)" for op cl s g r
  proof -
    from m obtain c cs g' where d: "drop (length op) s = c # cs"
      and l: "lazy_dots cl cs = Some (g', r)"
      by (auto simp: match_at_def split: if_splits list.splits option.splits)
    have "length (drop (length op) s) \<le> length s" by simp
    with d have "length cs < length s" by simp
    with dots [OF l] show ?thesis by simp
  qed
  show ?thesis
    by (relation "measure (\<lambda>(op, cl, repl, s). length s)") (auto dest: shorter)
qed

section \<open>MD5\<close>

text \<open>
  \<open>hashlib.md5(b).hexdigest()\<close> is the MD5 message digest of RFC 1321 over the bytes \<open>b\<close>,
  written as 32 lowercase hexadecimal digits. Words are 32-bit, bytes are naturals below 256.
\<close>

type_synonym u32 = "32 word"
type_synonym md5_state = "u32 \<times> u32 \<times> u32 \<times> u32"

definition rotl32 :: "u32 \<Rightarrow> nat \<Rightarrow> u32" where
  "rotl32 x n = push_bit n x OR drop_bit (32 - n) x"

definition md5_F :: "u32 \<Rightarrow> u32 \<Rightarrow> u32 \<Rightarrow> u32" where
  "md5_F b c d = (b AND c) OR (NOT b AND d)"

definition md5_G :: "u32 \<Rightarrow> u32 \<Rightarrow> u32 \<Rightarrow> u32" where
  "md5_G b c d = (d AND b) OR (NOT d AND c)"

definition md5_H :: "u32 \<Rightarrow> u32 \<Rightarrow> u32 \<Rightarrow> u32" where
  "md5_H b c d = b XOR c XOR d"

definition md5_I :: "u32 \<Rightarrow> u32 \<Rightarrow> u32 \<Rightarrow> u32" where
  "md5_I b c d = c XOR (b OR NOT d)"

fun md5_step :: "(u32 \<Rightarrow> u32 \<Rightarrow> u32 \<Rightarrow> u32) \<Rightarrow> u32 list \<Rightarrow> md5_state \<Rightarrow> u32 \<times> nat \<times> nat \<Rightarrow> md5_state" where
  "md5_step f M (a, b, c, d) (k, s, g) = (d, b + rotl32 (a + f b c d + k + M ! g) s, b, c)"

definition md5_table1 :: "(u32 \<times> nat \<times> nat) list" where
  "md5_table1 = [(0xd76aa478, 7, 0), (0xe8c7b756, 12, 1), (0x242070db, 17, 2), (0xc1bdceee, 22, 3),
     (0xf57c0faf, 7, 4), (0x4787c62a, 12, 5), (0xa8304613, 17, 6), (0xfd469501, 22, 7),
     (0x698098d8, 7, 8), (0x8b44f7af, 12, 9), (0xffff5bb1, 17, 10), (0x895cd7be, 22, 11),
     (0x6b901122, 7, 12), (0xfd987193, 12, 13), (0xa679438e, 17, 14), (0x49b40821, 22, 15)]"

definition md5_table2 :: "(u32 \<times> nat \<times> nat) list" where
  "md5_table2 = [(0xf61e2562, 5, 1), (0xc040b340, 9, 6), (0x265e5a51, 14, 11), (0xe9b6c7aa, 20, 0),
     (0xd62f105d, 5, 5), (0x02441453, 9, 10), (0xd8a1e681, 14, 15), (0xe7d3fbc8, 20, 4),
     (0x21e1cde6, 5, 9), (0xc33707d6, 9, 14), (0xf4d50d87, 14, 3), (0x455a14ed, 20, 8),
     (0xa9e3e905, 5, 13), (0xfcefa3f8, 9, 2), (0x676f02d9, 14, 7), (0x8d2a4c8a, 20, 12)]"

definition md5_table3 :: "(u32 \<times> nat \<times> nat) list" where
  "md5_table3 = [(0xfffa3942, 4, 5), (0x8771f681, 11, 8), (0x6d9d6122, 16, 11), (0xfde5380c, 23, 14),
     (0xa4beea44, 4, 1), (0x4bdecfa9, 11, 4), (0xf6bb4b60, 16, 7), (0xbebfbc70, 23, 10),
     (0x289b7ec6, 4, 13), (0xeaa127fa, 11, 0), (0xd4ef3085, 16, 3), (0x04881d05, 23, 6),
     (0xd9d4d039, 4, 9), (0xe6db99e5, 11, 12), (0x1fa27cf8, 16, 15), (0xc4ac5665, 23, 2)]"

definition md5_table4 :: "(u32 \<times> nat \<times> nat) list" where
  "md5_table4 = [(0xf4292244, 6, 0), (0x432aff97, 10, 7), (0xab9423a7, 15, 14), (0xfc93a039, 21, 5),
     (0x655b59c3, 6, 12), (0x8f0ccc92, 10, 3), (0xffeff47d, 15, 10), (0x85845dd1, 21, 1),
     (0x6fa87e4f, 6, 8), (0xfe2ce6e0, 10, 15), (0xa3014314, 15, 6), (0x4e0811a1, 21, 13),
     (0xf7537e82, 6, 4), (0xbd3af235, 10, 11), (0x2ad7d2bb, 15, 2), (0xeb86d391, 21, 9)]"

definition md5_rounds :: "u32 list \<Rightarrow> md5_state \<Rightarrow> md5_state" where
  "md5_rounds M st =
     foldl (md5_step md5_I M)
       (foldl (md5_step md5_H M)
          (foldl (md5_step md5_G M)
             (foldl (md5_step md5_F M) st md5_table1) md5_table2) md5_table3) md5_table4"

fun md5_add :: "md5_state \<Rightarrow> md5_state \<Rightarrow> md5_state" where
  "md5_add (a0, b0, c0, d0) (a, b, c, d) = (a0 + a, b0 + b, c0 + c, d0 + d)"

definition md5_block :: "md5_state \<Rightarrow> u32 list \<Rightarrow> md5_state" where
  "md5_block st M = md5_add st (md5_rounds M st)"

definition le_bytes4 :: "nat \<Rightarrow> nat list" where
  "le_bytes4 n = [n mod 256, n div 256 mod 256, n div 65536 mod 256, n div 16777216 mod 256]"

definition le_bytes8 :: "nat \<Rightarrow> nat list" where
  "le_bytes8 n = le_bytes4 (n mod 4294967296) @ le_bytes4 (n div 4294967296)"

definition md5_pad :: "nat list \<Rightarrow> nat list" where
  "md5_pad bs = bs @ [128] @ replicate ((119 - length bs mod 64) mod 64) 0
                 @ le_bytes8 ((8 * length bs) mod 2 ^ 64)"

fun le_words :: "nat list \<Rightarrow> u32 list" where
  "le_words (b0 # b1 # b2 # b3 # bs) =
     of_nat (b0 + 256 * b1 + 65536 * b2 + 16777216 * b3) # le_words bs"
| "le_words _ = []"

fun chunks16 :: "'a list \<Rightarrow> 'a list list" where
  "chunks16 [] = []"
| "chunks16 (x # xs) = take 16 (x # xs) # chunks16 (drop 16 (x # xs))"

definition hex_digit :: "nat \<Rightarrow> char" where
  "hex_digit n = ''0123456789abcdef'' ! n"

definition hex_byte :: "nat \<Rightarrow> string" where
  "hex_byte b = [hex_digit (b div 16), hex_digit (b mod 16)]"

fun md5_out :: "md5_state \<Rightarrow> nat list" where
  "md5_out (a, b, c, d) = concat (map (\<lambda>w. le_bytes4 (unat w)) [a, b, c, d])"

definition md5_digest :: "nat list \<Rightarrow> nat list" where
  "md5_digest bs =
     md5_out (foldl md5_block (0x67452301, 0xefcdab89, 0x98badcfe, 0x10325476)
             (chunks16 (le_words (md5_pad bs))))"

definition md5_hexdigest :: "nat list \<Rightarrow> string" where
  "md5_hexdigest bs = concat (map hex_byte (md5_digest bs))"


text \<open>\<open>s.encode()\<close>: UTF-8; a code point below 128 is one byte, one below 256 is two.\<close>

definition utf8_char :: "char \<Rightarrow> nat list" where
  "utf8_char c =
     (let n = (of_char c :: nat)
      in if n < 128 then [n] else [192 + n div 64, 128 + n mod 64])"

definition encode :: "string \<Rightarrow> nat list" where
  "encode s = concat (map utf8_char s)"

section \<open>Inline processing\<close>

definition parse_bold_text :: "string \<Rightarrow> string" where
  "parse_bold_text text =
     (let text1 = re_sub ''**'' ''**'' (\<lambda>g. ''<b>'' @ g @ ''</b>'') text;
          text2 = re_sub ''__'' ''__'' (\<lambda>g. ''<em>'' @ g @ ''</em>'') text1
      in text2)"

text \<open>\<open>g.replace('c', '').replace('C', '')\<close>.\<close>

definition remove_c :: "string \<Rightarrow> string" where
  "remove_c g = filter (\<lambda>x. x \<noteq> CHR ''C'') (filter (\<lambda>x. x \<noteq> CHR ''c'') g)"

definition process_special_syntax :: "string \<Rightarrow> string" where
  "process_special_syntax text =
     (let text1 = re_sub ''[['' '']]'' (\<lambda>g. md5_hexdigest (encode g)) text;
          text2 = re_sub ''(('' ''))'' remove_c text1
      in text2)"

text \<open>The pipeline the block state machine applies to every payload.\<close>

definition inline :: "string \<Rightarrow> string" where
  "inline text = parse_bold_text (process_special_syntax text)"

section \<open>Block state machine\<close>

record block_context =
  in_unordered_list :: bool
  in_ordered_list :: bool
  in_paragraph :: bool

definition initial_context :: block_context where
  "initial_context = \<lparr>in_unordered_list = False, in_ordered_list = False, in_paragraph = False\<rparr>"

text \<open>One \<open>html_file.write\<close> of a line: the text and its line feed.\<close>

definition ln :: "string \<Rightarrow> string" where
  "ln s = s @ [LF]"

text \<open>The \<open>if\<close>/\<open>elif\<close> chain of the loop body, on the stripped line, in the source's order.\<close>

datatype line_kind = Heading | UnorderedItem | OrderedItem | ParagraphText | Blank

definition classify :: "string \<Rightarrow> line_kind" where
  "classify stripped_line =
     (if startswith stripped_line ''#'' then Heading
      else if startswith stripped_line ''- '' then UnorderedItem
      else if startswith stripped_line ''* '' then OrderedItem
      else if stripped_line \<noteq> [] then ParagraphText
      else Blank)"

text \<open>\<open>len(stripped_line.split(' ')[0])\<close>: the length of the text before the first space.\<close>

definition heading_level :: "string \<Rightarrow> nat" where
  "heading_level stripped_line = length (takeWhile (\<lambda>c. c \<noteq> CHR '' '') stripped_line)"

definition heading_text :: "string \<Rightarrow> string" where
  "heading_text stripped_line = strip (drop (heading_level stripped_line) stripped_line)"

definition heading_html :: "string \<Rightarrow> string" where
  "heading_html stripped_line =
     ''<h'' @ str_nat (heading_level stripped_line) @ ''>'' @ inline (heading_text stripped_line)
       @ ''</h'' @ str_nat (heading_level stripped_line) @ ''>''"

definition list_item_html :: "string \<Rightarrow> string" where
  "list_item_html stripped_line = ''    <li>'' @ inline (strip (drop 2 stripped_line)) @ ''</li>''"

text \<open>
  Each branch returns the context after the line and the writes it made, in order.
\<close>

definition heading_branch :: "block_context \<Rightarrow> string \<Rightarrow> block_context \<times> string list" where
  "heading_branch st stripped_line =
     (st\<lparr>in_unordered_list := False, in_ordered_list := False, in_paragraph := False\<rparr>,
      (if in_unordered_list st then [ln ''</ul>''] else [])
      @ (if in_ordered_list st then [ln ''</ol>''] else [])
      @ (if in_paragraph st then [ln ''</p>''] else [])
      @ [ln (heading_html stripped_line)])"

definition unordered_branch :: "block_context \<Rightarrow> string \<Rightarrow> block_context \<times> string list" where
  "unordered_branch st stripped_line =
     (if \<not> in_unordered_list st then
        (st\<lparr>in_paragraph := False, in_unordered_list := True\<rparr>,
         (if in_paragraph st then [ln ''</p>''] else [])
         @ [ln ''<ul>'', ln (list_item_html stripped_line)])
      else (st, [ln (list_item_html stripped_line)]))"

definition ordered_branch :: "block_context \<Rightarrow> string \<Rightarrow> block_context \<times> string list" where
  "ordered_branch st stripped_line =
     (if \<not> in_ordered_list st then
        (st\<lparr>in_paragraph := False, in_ordered_list := True\<rparr>,
         (if in_paragraph st then [ln ''</p>''] else [])
         @ [ln ''<ol>'', ln (list_item_html stripped_line)])
      else (st, [ln (list_item_html stripped_line)]))"

definition paragraph_branch :: "block_context \<Rightarrow> string \<Rightarrow> block_context \<times> string list" where
  "paragraph_branch st stripped_line =
     (if \<not> in_paragraph st then
        (st\<lparr>in_unordered_list := False, in_ordered_list := False, in_paragraph := True\<rparr>,
         (if in_unordered_list st then [ln ''</ul>''] else [])
         @ (if in_ordered_list st then [ln ''</ol>''] else [])
         @ [ln ''<p>'', ln (''    '' @ inline stripped_line)])
      else (st, [ln ''    <br/>'', ln (''    '' @ inline stripped_line)]))"

definition blank_branch :: "block_context \<Rightarrow> block_context \<times> string list" where
  "blank_branch st =
     (if in_paragraph st then (st\<lparr>in_paragraph := False\<rparr>, [ln ''</p>'']) else (st, []))"

text \<open>The loop body for one line of the input file.\<close>

definition process_line :: "block_context \<Rightarrow> string \<Rightarrow> block_context \<times> string list" where
  "process_line st line =
     (let stripped_line = strip line
      in case classify stripped_line of
           Heading \<Rightarrow> heading_branch st stripped_line
         | UnorderedItem \<Rightarrow> unordered_branch st stripped_line
         | OrderedItem \<Rightarrow> ordered_branch st stripped_line
         | ParagraphText \<Rightarrow> paragraph_branch st stripped_line
         | Blank \<Rightarrow> blank_branch st)"

text \<open>The \<open>for\<close> loop: the context after the lines and all the writes.\<close>

fun process_lines :: "block_context \<Rightarrow> string list \<Rightarrow> block_context \<times> string list" where
  "process_lines st [] = (st, [])"
| "process_lines st (line # rest) =
     (case process_line st line of
        (st1, out1) \<Rightarrow> (case process_lines st1 rest of (st2, out2) \<Rightarrow> (st2, out1 @ out2)))"

text \<open>The writes after the loop, closing what is still open.\<close>

definition flush :: "block_context \<Rightarrow> string list" where
  "flush st =
     (if in_unordered_list st then [ln ''</ul>''] else [])
     @ (if in_ordered_list st then [ln ''</ol>''] else [])
     @ (if in_paragraph st then [ln ''</p>''] else [])"

text \<open>Everything written to the output file for the given input lines.\<close>

definition convert_lines :: "string list \<Rightarrow> string list" where
  "convert_lines lines = (case process_lines initial_context lines of (st, out) \<Rightarrow> out @ flush st)"

section \<open>Files and the command line\<close>

text \<open>
  Iterating over a file opened in text mode yields its lines, each with its line ending
  translated to a line feed (\<open>CR LF\<close> and \<open>CR\<close> count as line endings); a last line
  without line ending is yielded as it is. \<open>cur\<close> is the line read so far.
\<close>

fun read_lines :: "string \<Rightarrow> string \<Rightarrow> string list" where
  "read_lines cur [] = (if cur = [] then [] else [cur])"
| "read_lines cur [c] = (if c = LF \<or> c = CR then [cur @ [LF]] else [cur @ [c]])"
| "read_lines cur (c # d # cs) =
     (if c = CR \<and> d = LF then (cur @ [LF]) # read_lines [] cs
      else if c = LF \<or> c = CR then (cur @ [LF]) # read_lines [] (d # cs)
      else read_lines (cur @ [c]) (d # cs))"

text \<open>
  The file system as the program sees it. The operating system resolves every spelling of
  a path (relative or absolute, with \<open>.\<close> and \<open>..\<close>, through links) to one canonical name;
  \<open>canonical\<close> is that resolution and \<open>parent\<close> gives the directory that holds a canonical
  name. A canonical name is a regular file with its text, a directory, or nothing. Two
  paths are the same file exactly when their canonical names are equal. Outside the model:
  access rights, device errors, and files whose bytes are not text in the encoding read.
\<close>

datatype fs_entry = RegularFile string | Directory

record filesystem =
  canonical :: "string \<Rightarrow> string"
  parent :: "string \<Rightarrow> string"
  nodes :: "string \<rightharpoonup> fs_entry"

text \<open>What a path names.\<close>

definition lookup :: "filesystem \<Rightarrow> string \<Rightarrow> fs_entry option" where
  "lookup fs path = nodes fs (canonical fs path)"

text \<open>\<open>os.path.isfile\<close>.\<close>

definition isfile :: "filesystem \<Rightarrow> string \<Rightarrow> bool" where
  "isfile fs path = (case lookup fs path of Some (RegularFile _) \<Rightarrow> True | _ \<Rightarrow> False)"

datatype io_error =
  FileNotFoundError string | IsADirectoryError string | NotADirectoryError string

text \<open>What the program prints to the error stream.\<close>

datatype message = Usage | Missing string | Error io_error

text \<open>The error of opening a path that names nothing, by what its directory is.\<close>

definition absent_error :: "filesystem \<Rightarrow> string \<Rightarrow> io_error" where
  "absent_error fs path =
     (case nodes fs (parent fs (canonical fs path)) of
        Some (RegularFile _) \<Rightarrow> NotADirectoryError path
      | _ \<Rightarrow> FileNotFoundError path)"

text \<open>\<open>open(path, 'r')\<close>: the text that reading will yield, or the exception.\<close>

definition open_read :: "filesystem \<Rightarrow> string \<Rightarrow> io_error + string" where
  "open_read fs path =
     (case lookup fs path of
        None \<Rightarrow> Inl (absent_error fs path)
      | Some Directory \<Rightarrow> Inl (IsADirectoryError path)
      | Some (RegularFile content) \<Rightarrow> Inr content)"

text \<open>
  \<open>open(path, 'w')\<close>: an existing regular file is truncated; a path that names nothing is
  created as an empty file when its directory exists; anything else is an exception.
\<close>

definition open_write :: "filesystem \<Rightarrow> string \<Rightarrow> io_error + filesystem" where
  "open_write fs path =
     (case lookup fs path of
        Some Directory \<Rightarrow> Inl (IsADirectoryError path)
      | Some (RegularFile _) \<Rightarrow> Inr (fs\<lparr>nodes := (nodes fs)(canonical fs path \<mapsto> RegularFile [])\<rparr>)
      | None \<Rightarrow>
          (case nodes fs (parent fs (canonical fs path)) of
             Some Directory \<Rightarrow> Inr (fs\<lparr>nodes := (nodes fs)(canonical fs path \<mapsto> RegularFile [])\<rparr>)
           | _ \<Rightarrow> Inl (absent_error fs path)))"

text \<open>
  \<open>convert_markdown_to_html\<close>: both files are opened before the first line is read, the
  input first; the lines are then read from the file system as opening the output left it,
  so an input that is also the output reads as empty. An exception of either \<open>open\<close>
  leaves through \<open>Inl\<close> with nothing written; the caller prints it and exits.
\<close>

definition convert_markdown_to_html :: "filesystem \<Rightarrow> string \<Rightarrow> string \<Rightarrow> io_error + filesystem" where
  "convert_markdown_to_html fs markdown_file output_file =
     (case open_read fs markdown_file of
        Inl e \<Rightarrow> Inl e
      | Inr _ \<Rightarrow>
          (case open_write fs output_file of
             Inl e \<Rightarrow> Inl e
           | Inr fs1 \<Rightarrow>
               (case open_read fs1 markdown_file of
                  Inl e \<Rightarrow> Inl e
                | Inr content \<Rightarrow>
                    Inr (fs1\<lparr>nodes := (nodes fs1)(canonical fs1 output_file \<mapsto>
                           RegularFile (concat (convert_lines (read_lines [] content))))\<rparr>))))"

text \<open>A file system that holds the current directory and nothing else.\<close>

definition bare_filesystem :: filesystem where
  "bare_filesystem = \<lparr>canonical = (\<lambda>p. p), parent = (\<lambda>p. ''.''), nodes = [''.'' \<mapsto> Directory]\<rparr>"

record run_result =
  stderr :: "message list"
  exit_code :: int
  files :: filesystem

text \<open>\<open>main\<close>, on \<open>sys.argv\<close> and the file system.\<close>

definition main :: "string list \<Rightarrow> filesystem \<Rightarrow> run_result" where
  "main argv fs =
     (if length argv < 3 then \<lparr>stderr = [Usage], exit_code = 1, files = fs\<rparr>
      else
        (let markdown_file = argv ! 1; output_file = argv ! 2
         in if \<not> isfile fs markdown_file
            then \<lparr>stderr = [Missing markdown_file], exit_code = 1, files = fs\<rparr>
            else (case convert_markdown_to_html fs markdown_file output_file of
                    Inl e \<Rightarrow> \<lparr>stderr = [Error e], exit_code = 1, files = fs\<rparr>
                  | Inr fs' \<Rightarrow> \<lparr>stderr = [], exit_code = 0, files = fs'\<rparr>)))"

section \<open>Properties of the output, as the specification words them\<close>

text \<open>
  Nesting of the block tags in a sequence of output lines: an opening tag is pushed, a
  closing tag must match the tag opened last, and nothing is left open at the end.
\<close>

datatype block_tag = UL | OL | P

definition open_tag :: "string \<Rightarrow> block_tag option" where
  "open_tag l =
     (if l = ln ''<ul>'' then Some UL else if l = ln ''<ol>'' then Some OL
      else if l = ln ''<p>'' then Some P else None)"

definition close_tag :: "string \<Rightarrow> block_tag option" where
  "close_tag l =
     (if l = ln ''</ul>'' then Some UL else if l = ln ''</ol>'' then Some OL
      else if l = ln ''</p>'' then Some P else None)"

fun nested :: "block_tag list \<Rightarrow> string list \<Rightarrow> bool" where
  "nested stack [] = (stack = [])"
| "nested stack (l # ls) =
     (case open_tag l of
        Some t \<Rightarrow> nested (t # stack) ls
      | None \<Rightarrow>
          (case close_tag l of
             None \<Rightarrow> nested stack ls
           | Some t \<Rightarrow> (case stack of [] \<Rightarrow> False | u # us \<Rightarrow> u = t \<and> nested us ls)))"

definition well_nested :: "string list \<Rightarrow> bool" where
  "well_nested out = nested [] out"

text \<open>At most one of the three flags of the context is set.\<close>

definition at_most_one_open :: "block_context \<Rightarrow> bool" where
  "at_most_one_open st =
     (\<not> (in_unordered_list st \<and> in_ordered_list st)
      \<and> \<not> (in_unordered_list st \<and> in_paragraph st)
      \<and> \<not> (in_ordered_list st \<and> in_paragraph st))"





section \<open>Evaluation on concrete inputs\<close>

lemmas text_eval = strip_def isspace_def startswith_def LF_def CR_def ln_def match_at_def

lemmas inline_eval = inline_def parse_bold_text_def process_special_syntax_def remove_c_def

lemmas block_eval = process_line_def classify_def heading_branch_def unordered_branch_def
  ordered_branch_def paragraph_branch_def blank_branch_def list_item_html_def heading_html_def
  heading_level_def heading_text_def flush_def convert_lines_def initial_context_def

section \<open>Switching from one list type to the other\<close>

text \<open>
  C1. The specification states that at most one of the three flags of the block context is
  set at any point. After the two lines \<open>- a\<close> and \<open>* b\<close> the code has both list flags set:
  the ordered-item branch opens its list without closing the unordered one.
\<close>

theorem both_lists_open:
  "fst (process_lines initial_context [ln ''- a'', ln ''* b'']) =
     \<lparr>in_unordered_list = True, in_ordered_list = True, in_paragraph = False\<rparr>
   \<and> \<not> at_most_one_open (fst (process_lines initial_context [ln ''- a'', ln ''* b'']))"
  by (simp add: text_eval inline_eval block_eval at_most_one_open_def)

text \<open>
  C2. The specification states that an ordered item met while an unordered list is open
  first writes the closing tag of the unordered list and clears its flag. The code writes
  the opening tag of the ordered list and the item, and leaves the unordered list open.
\<close>

theorem ordered_item_keeps_unordered_open:
  "process_line \<lparr>in_unordered_list = True, in_ordered_list = False, in_paragraph = False\<rparr>
       (ln ''* b'') =
     (\<lparr>in_unordered_list = True, in_ordered_list = True, in_paragraph = False\<rparr>,
      [ln ''<ol>'', ln ''    <li>b</li>''])"
  by (simp add: text_eval inline_eval block_eval)

text \<open>
  C3. The specification states that the block tags of the output are properly nested. For
  the lines \<open>- a\<close> and \<open>* b\<close> the code closes the unordered list before the ordered list
  that was opened inside it.
\<close>

theorem list_switch_output_not_nested:
  "convert_lines [ln ''- a'', ln ''* b''] =
     [ln ''<ul>'', ln ''    <li>a</li>'', ln ''<ol>'', ln ''    <li>b</li>'', ln ''</ul>'', ln ''</ol>'']
   \<and> \<not> well_nested (convert_lines [ln ''- a'', ln ''* b''])"
  by (simp add: text_eval inline_eval block_eval well_nested_def open_tag_def close_tag_def)

section \<open>Text without delimiters\<close>

lemma re_sub_no_opener: "\<not> contains s op \<Longrightarrow> re_sub op cl repl s = s"
proof (induction s)
  case Nil
  then show ?case by simp
next
  case (Cons c cs)
  then have "match_at op cl (c # cs) = None" and "\<not> contains cs op"
    by (simp_all add: match_at_def)
  with Cons.IH show ?case by simp
qed

text \<open>
  C9. A text that contains none of \<open>[[\<close>, \<open>((\<close>, \<open>**\<close> and \<open>__\<close> passes through the
  inline pipeline (hash/strip substitution, then emphasis substitution) unchanged.
\<close>

theorem inline_identity_without_delimiters:
  assumes "\<not> contains text ''[[''" and "\<not> contains text ''((''"
    and "\<not> contains text ''**''" and "\<not> contains text ''__''"
  shows "inline text = text"
  using assms by (simp add: inline_eval re_sub_no_opener)

theorem inline_identity_without_delimiters_witness:
  "\<not> contains ''plain (text) [1] a*b _c_'' ''[['' \<and> \<not> contains ''plain (text) [1] a*b _c_'' ''((''
   \<and> \<not> contains ''plain (text) [1] a*b _c_'' ''**'' \<and> \<not> contains ''plain (text) [1] a*b _c_'' ''__''
   \<and> inline ''plain (text) [1] a*b _c_'' = ''plain (text) [1] a*b _c_''"
proof -
  have h: "\<not> contains ''plain (text) [1] a*b _c_'' ''[[''" "\<not> contains ''plain (text) [1] a*b _c_'' ''((''"
    "\<not> contains ''plain (text) [1] a*b _c_'' ''**''" "\<not> contains ''plain (text) [1] a*b _c_'' ''__''"
    by (simp_all add: startswith_def)
  from h inline_identity_without_delimiters [OF h] show ?thesis by blast
qed

section \<open>A missing input file\<close>

text \<open>
  C8. Run with both paths given and an input path that does not name a regular file, the
  program prints the missing-file message to the error stream, exits with code 1, and
  leaves the file system as it was: the output path is neither created nor written.
\<close>

theorem missing_input_file:
  assumes "3 \<le> length argv" and "\<not> isfile fs (argv ! 1)"
  shows "stderr (main argv fs) = [Missing (argv ! 1)]
         \<and> exit_code (main argv fs) = 1 \<and> exit_code (main argv fs) \<noteq> 0
         \<and> files (main argv fs) = fs"
  using assms by (simp add: main_def)

theorem missing_input_file_witness:
  "stderr (main [''./markdown2html.py'', ''README.md'', ''README.html''] bare_filesystem)
     = [Missing ''README.md'']
   \<and> exit_code (main [''./markdown2html.py'', ''README.md'', ''README.html''] bare_filesystem) \<noteq> 0
   \<and> lookup (files (main [''./markdown2html.py'', ''README.md'', ''README.html''] bare_filesystem))
         ''README.html'' = None"
  using missing_input_file [of "[''./markdown2html.py'', ''README.md'', ''README.html'']" bare_filesystem]
  by (simp add: isfile_def lookup_def bare_filesystem_def)

text \<open>
  Once the input is a regular file: an output path in a directory that does not exist makes
  \<open>open\<close> fail and nothing is written; an output path that is another spelling of the
  input truncates it before the first line is read, and the file is left empty.
\<close>

lemma output_directory_missing:
  assumes "lookup fs markdown_file = Some (RegularFile content)"
    and "lookup fs output_file = None"
    and "nodes fs (parent fs (canonical fs output_file)) = None"
  shows "convert_markdown_to_html fs markdown_file output_file = Inl (FileNotFoundError output_file)"
  using assms
  by (simp add: convert_markdown_to_html_def open_read_def open_write_def absent_error_def)

lemma output_is_input:
  assumes "lookup fs markdown_file = Some (RegularFile content)"
    and "canonical fs output_file = canonical fs markdown_file"
  shows "convert_markdown_to_html fs markdown_file output_file =
           Inr (fs\<lparr>nodes := (nodes fs)(canonical fs markdown_file \<mapsto> RegularFile [])\<rparr>)"
  using assms
  by (simp add: convert_markdown_to_html_def open_read_def open_write_def lookup_def
      convert_lines_def initial_context_def flush_def)

section \<open>Classification of list items\<close>

text \<open>
  C5, as stated: a marker followed by more than one space makes the line paragraph
  content. It does not: \<open>startswith\<close> only looks at the marker and the first space, so
  the line \<open>-  x\<close> is an unordered item, and the further spaces are stripped from its text.
\<close>

theorem two_spaces_still_list_item:
  "classify (strip (ln ''-  x'')) = UnorderedItem
   \<and> classify (strip (ln ''-  x'')) \<noteq> ParagraphText
   \<and> snd (process_line initial_context (ln ''-  x'')) = [ln ''<ul>'', ln ''    <li>x</li>'']"
  by (simp add: text_eval inline_eval block_eval)

text \<open>
  C5, amended. A stripped line is an unordered item exactly when it begins with \<open>-\<close> and a
  space, an ordered item exactly when it begins with \<open>*\<close> and a space, whatever follows;
  a line that begins with a marker not followed by a space is paragraph content.
\<close>

theorem list_item_classification:
  "(classify s = UnorderedItem \<longleftrightarrow> startswith s ''- '')
   \<and> (classify s = OrderedItem \<longleftrightarrow> startswith s ''* '')
   \<and> ((startswith s ''-'' \<or> startswith s ''*'') \<and> \<not> startswith s ''- '' \<and> \<not> startswith s ''* ''
        \<longrightarrow> classify s = ParagraphText)"
  by (cases s) (auto simp: classify_def startswith_def)

theorem list_item_classification_witness:
  "classify ''- x'' = UnorderedItem \<and> classify ''* x'' = OrderedItem
   \<and> classify ''-x'' = ParagraphText \<and> classify ''*x'' = ParagraphText"
  using list_item_classification [of "''- x''"] list_item_classification [of "''* x''"]
    list_item_classification [of "''-x''"] list_item_classification [of "''*x''"]
  by (simp add: startswith_def)

section \<open>Headings\<close>

text \<open>
  C4, as stated: the level of a heading is the number of leading \<open>#\<close> characters of the
  line. The code takes the length of the text before the first space: the line \<open>#a\<close> has
  one leading \<open>#\<close> and is written as a heading of level 2, with empty text.
\<close>

theorem heading_level_is_token_length:
  "heading_level (strip (ln ''#a'')) = 2
   \<and> length (takeWhile (\<lambda>c. c = CHR ''#'') (strip (ln ''#a''))) = 1
   \<and> snd (process_line initial_context (ln ''#a'')) = [ln ''<h2></h2>'']"
  by (simp add: text_eval inline_eval block_eval str_nat.simps digit_char_def)

lemma all_hash_token:
  "\<forall>c \<in> set (takeWhile (\<lambda>c. c \<noteq> CHR '' '') s). c = CHR ''#'' \<Longrightarrow>
   takeWhile (\<lambda>c. c = CHR ''#'') s = takeWhile (\<lambda>c. c \<noteq> CHR '' '') s"
  by (induction s) auto

text \<open>
  C4, amended. For a line whose stripped form starts with \<open>#\<close>, the last line written is
  \<open><hN>text</hN>\<close>, after the closing tags of what was open, where \<open>N\<close> is the length of
  the stripped line up to its first space, with no upper bound, and the text is the rest of
  the stripped line, stripped and passed through the inline pipeline. When that first token
  consists of \<open>#\<close> characters only, \<open>N\<close> is the number of leading \<open>#\<close> characters.
\<close>

theorem heading_line_output:
  assumes "startswith (strip line) ''#''"
  shows "(\<exists>closers. snd (process_line st line) =
           closers @ [ln (''<h'' @ str_nat (length (takeWhile (\<lambda>c. c \<noteq> CHR '' '') (strip line))) @ ''>''
             @ inline (strip (drop (length (takeWhile (\<lambda>c. c \<noteq> CHR '' '') (strip line))) (strip line)))
             @ ''</h'' @ str_nat (length (takeWhile (\<lambda>c. c \<noteq> CHR '' '') (strip line))) @ ''>'')]
           \<and> set closers \<subseteq> {ln ''</ul>'', ln ''</ol>'', ln ''</p>''})
     \<and> ((\<forall>c \<in> set (takeWhile (\<lambda>c. c \<noteq> CHR '' '') (strip line)). c = CHR ''#'') \<longrightarrow>
           length (takeWhile (\<lambda>c. c \<noteq> CHR '' '') (strip line))
             = length (takeWhile (\<lambda>c. c = CHR ''#'') (strip line)))"
proof (intro conjI)
  from assms have k: "classify (strip line) = Heading"
    by (simp add: classify_def)
  show "\<exists>closers. snd (process_line st line) =
           closers @ [ln (''<h'' @ str_nat (length (takeWhile (\<lambda>c. c \<noteq> CHR '' '') (strip line))) @ ''>''
             @ inline (strip (drop (length (takeWhile (\<lambda>c. c \<noteq> CHR '' '') (strip line))) (strip line)))
             @ ''</h'' @ str_nat (length (takeWhile (\<lambda>c. c \<noteq> CHR '' '') (strip line))) @ ''>'')]
           \<and> set closers \<subseteq> {ln ''</ul>'', ln ''</ol>'', ln ''</p>''}"
    apply (rule exI [where x = "(if in_unordered_list st then [ln ''</ul>''] else [])
      @ (if in_ordered_list st then [ln ''</ol>''] else [])
      @ (if in_paragraph st then [ln ''</p>''] else [])"])
    using k by (auto simp: process_line_def heading_branch_def heading_html_def heading_level_def
        heading_text_def Let_def)
  show "(\<forall>c \<in> set (takeWhile (\<lambda>c. c \<noteq> CHR '' '') (strip line)). c = CHR ''#'') \<longrightarrow>
           length (takeWhile (\<lambda>c. c \<noteq> CHR '' '') (strip line))
             = length (takeWhile (\<lambda>c. c = CHR ''#'') (strip line))"
    by (simp add: all_hash_token)
qed

theorem heading_line_output_witness:
  "startswith (strip (ln ''####### Big  title '')) ''#''
   \<and> takeWhile (\<lambda>c. c \<noteq> CHR '' '') (strip (ln ''####### Big  title '')) = ''#######''
   \<and> length (takeWhile (\<lambda>c. c = CHR ''#'') (strip (ln ''####### Big  title ''))) = 7
   \<and> snd (process_line initial_context (ln ''####### Big  title '')) = [ln ''<h7>Big  title</h7>'']"
  using heading_line_output [of "ln ''####### Big  title ''" initial_context]
  by (simp add: text_eval inline_eval block_eval str_nat.simps digit_char_def)


section \<open>Delimiter pairs with nothing between them\<close>

text \<open>
  C10, as stated: an occurrence of \<open>(())\<close> or \<open>****\<close> is left unchanged in the output.
  Followed by one more delimiter character it is not: in \<open>(()))\<close> the pattern takes the
  third parenthesis as the group and the last two as the closing delimiter, and likewise
  in \<open>*****\<close>.
\<close>

theorem empty_pair_before_closer_is_substituted:
  "inline ''(()))'' = '')'' \<and> \<not> contains (inline ''(()))'') ''(())''
   \<and> inline ''*****'' = ''<b>*</b>'' \<and> \<not> contains (inline ''*****'') ''****''"
  by (simp add: text_eval inline_eval)

text \<open>
  C10, amended. The group of every match is non-empty, so no substitution is made with
  nothing between the delimiters (\<open>[[]]\<close> is never replaced by the digest of the empty
  text), and each of \<open>[[]]\<close>, \<open>(())\<close>, \<open>****\<close> and \<open>____\<close>, alone on its line, passes
  through the inline pipeline unchanged.
\<close>

theorem empty_pairs_unchanged:
  "(\<forall>op cl s g r. match_at op cl s = Some (g, r) \<longrightarrow> g \<noteq> [])
   \<and> inline ''[[]]'' = ''[[]]'' \<and> inline ''(())'' = ''(())''
   \<and> inline ''****'' = ''****'' \<and> inline ''____'' = ''____''"
proof (intro conjI allI impI)
  fix op cl s g r
  assume "match_at op cl s = Some (g, r)"
  then show "g \<noteq> []"
    by (auto simp: match_at_def split: if_splits list.splits option.splits)
qed (simp_all add: text_eval inline_eval)

theorem empty_pairs_unchanged_witness:
  "match_at ''[['' '']]'' ''[[a]]'' = Some (''a'', []) \<and> ''a'' \<noteq> []"
proof -
  have m: "match_at ''[['' '']]'' ''[[a]]'' = Some (''a'', [])"
    by (simp add: text_eval)
  from empty_pairs_unchanged have "\<forall>op cl s g r. match_at op cl s = Some (g, r) \<longrightarrow> g \<noteq> []"
    by (rule conjunct1)
  with m show ?thesis by blast
qed


section \<open>Blank lines and runs of unordered items\<close>

lemma classify_blank: "classify [] = Blank"
  by (simp add: classify_def startswith_def)

lemma classify_item_nonempty: "classify s = UnorderedItem \<Longrightarrow> s \<noteq> []"
  by (auto simp: classify_blank)

lemma run_in_open_list:
  assumes "in_unordered_list st" and "\<not> in_paragraph st"
    and "\<forall>l \<in> set lines. classify (strip l) = UnorderedItem \<or> strip l = []"
  shows "process_lines st lines =
           (st, map (\<lambda>l. ln (''    <li>'' @ inline (strip (drop 2 (strip l))) @ ''</li>''))
                  (filter (\<lambda>l. strip l \<noteq> []) lines))"
  using assms(3)
proof (induction lines)
  case Nil
  then show ?case by simp
next
  case (Cons l ls)
  then have ih: "process_lines st ls =
           (st, map (\<lambda>l. ln (''    <li>'' @ inline (strip (drop 2 (strip l))) @ ''</li>''))
                  (filter (\<lambda>l. strip l \<noteq> []) ls))"
    by simp
  from Cons.prems have "classify (strip l) = UnorderedItem \<or> strip l = []" by simp
  then show ?case
  proof
    assume u: "classify (strip l) = UnorderedItem"
    then have "strip l \<noteq> []" by (rule classify_item_nonempty)
    with u ih assms(1) show ?thesis
      by (simp add: process_line_def unordered_branch_def list_item_html_def)
  next
    assume b: "strip l = []"
    with ih assms(2) show ?thesis
      by (simp add: process_line_def classify_blank blank_branch_def)
  qed
qed

lemma run_from_no_list:
  assumes "\<not> in_unordered_list st" and "\<not> in_paragraph st"
    and "\<forall>l \<in> set lines. classify (strip l) = UnorderedItem \<or> strip l = []"
    and "\<exists>l \<in> set lines. strip l \<noteq> []"
  shows "process_lines st lines =
           (st\<lparr>in_paragraph := False, in_unordered_list := True\<rparr>,
            ln ''<ul>'' # map (\<lambda>l. ln (''    <li>'' @ inline (strip (drop 2 (strip l))) @ ''</li>''))
                  (filter (\<lambda>l. strip l \<noteq> []) lines))"
  using assms(3,4)
proof (induction lines)
  case Nil
  then show ?case by simp
next
  case (Cons l ls)
  from Cons.prems have "classify (strip l) = UnorderedItem \<or> strip l = []" by simp
  then show ?case
  proof
    assume u: "classify (strip l) = UnorderedItem"
    then have ne: "strip l \<noteq> []" by (rule classify_item_nonempty)
    have "process_lines (st\<lparr>in_paragraph := False, in_unordered_list := True\<rparr>) ls =
           (st\<lparr>in_paragraph := False, in_unordered_list := True\<rparr>,
            map (\<lambda>l. ln (''    <li>'' @ inline (strip (drop 2 (strip l))) @ ''</li>''))
                  (filter (\<lambda>l. strip l \<noteq> []) ls))"
      using Cons.prems by (intro run_in_open_list) simp_all
    with u ne assms(1,2) show ?thesis
      by (simp add: process_line_def unordered_branch_def list_item_html_def)
  next
    assume b: "strip l = []"
    with Cons.prems have "\<exists>l \<in> set ls. strip l \<noteq> []" by auto
    with Cons have "process_lines st ls =
           (st\<lparr>in_paragraph := False, in_unordered_list := True\<rparr>,
            ln ''<ul>'' # map (\<lambda>l. ln (''    <li>'' @ inline (strip (drop 2 (strip l))) @ ''</li>''))
                  (filter (\<lambda>l. strip l \<noteq> []) ls))"
      by simp
    with b assms(2) show ?thesis
      by (simp add: process_line_def classify_blank blank_branch_def)
  qed
qed

text \<open>
  What the code does by its branches. A blank line writes \<open></p>\<close> and clears the
  paragraph flag when a paragraph is open, and writes nothing and changes nothing otherwise:
  the list flags stay as they are. A run of unordered items and blank lines with at least
  one item, read when no unordered list and no paragraph is open, writes \<open><ul>\<close> and one
  list item per item line, in order, and leaves the list open; when the run is the whole
  input the output is \<open><ul>\<close>, the items, \<open></ul>\<close>.
\<close>

lemma blank_lines_and_unordered_runs:
  "(strip line = [] \<longrightarrow>
      process_line st line =
        (if in_paragraph st then (st\<lparr>in_paragraph := False\<rparr>, [ln ''</p>'']) else (st, [])))
   \<and> (\<not> in_unordered_list st \<and> \<not> in_paragraph st
        \<and> (\<forall>l \<in> set lines. classify (strip l) = UnorderedItem \<or> strip l = [])
        \<and> (\<exists>l \<in> set lines. strip l \<noteq> []) \<longrightarrow>
      in_unordered_list (fst (process_lines st lines))
      \<and> snd (process_lines st lines) =
        ln ''<ul>'' # map (\<lambda>l. ln (''    <li>'' @ inline (strip (drop 2 (strip l))) @ ''</li>''))
                         (filter (\<lambda>l. strip l \<noteq> []) lines))
   \<and> ((\<forall>l \<in> set lines. classify (strip l) = UnorderedItem \<or> strip l = [])
        \<and> (\<exists>l \<in> set lines. strip l \<noteq> []) \<longrightarrow>
      convert_lines lines =
        ln ''<ul>'' # map (\<lambda>l. ln (''    <li>'' @ inline (strip (drop 2 (strip l))) @ ''</li>''))
                         (filter (\<lambda>l. strip l \<noteq> []) lines) @ [ln ''</ul>''])"
proof -
  have blank: "process_line st line =
        (if in_paragraph st then (st\<lparr>in_paragraph := False\<rparr>, [ln ''</p>'']) else (st, []))"
    if "strip line = []"
    using that by (simp add: process_line_def classify_blank blank_branch_def)
  have run: "process_lines st lines =
           (st\<lparr>in_paragraph := False, in_unordered_list := True\<rparr>,
            ln ''<ul>'' # map (\<lambda>l. ln (''    <li>'' @ inline (strip (drop 2 (strip l))) @ ''</li>''))
                  (filter (\<lambda>l. strip l \<noteq> []) lines))"
    if "\<not> in_unordered_list st \<and> \<not> in_paragraph st
        \<and> (\<forall>l \<in> set lines. classify (strip l) = UnorderedItem \<or> strip l = [])
        \<and> (\<exists>l \<in> set lines. strip l \<noteq> [])"
    using that by (intro run_from_no_list) simp_all
  have whole: "convert_lines lines = ln ''<ul>'' # map (\<lambda>l. ln (''    <li>'' @ inline (strip (drop 2 (strip l))) @ ''</li>''))
                  (filter (\<lambda>l. strip l \<noteq> []) lines) @ [ln ''</ul>'']"
    if a: "(\<forall>l \<in> set lines. classify (strip l) = UnorderedItem \<or> strip l = [])
        \<and> (\<exists>l \<in> set lines. strip l \<noteq> [])"
  proof -
    have "process_lines initial_context lines =
           (initial_context\<lparr>in_paragraph := False, in_unordered_list := True\<rparr>,
            ln ''<ul>'' # map (\<lambda>l. ln (''    <li>'' @ inline (strip (drop 2 (strip l))) @ ''</li>''))
                  (filter (\<lambda>l. strip l \<noteq> []) lines))"
      using a by (intro run_from_no_list) (simp_all add: initial_context_def)
    then show ?thesis
      by (simp add: convert_lines_def flush_def initial_context_def)
  qed
  show ?thesis
    using blank run whole by simp
qed

text \<open>
  C6. The specification states that a blank line closes an open paragraph and nothing else,
  and that every run of unordered items, with or without blank lines between them, is
  written as \<open><ul>\<close>, one list item per item line, \<open></ul>\<close>. The first part holds (the
  lemma above). The second does not where the run meets ordered items: after the run
  \<open>- a\<close>, blank, \<open>- b\<close> the line \<open>* c\<close> writes \<open><ol>\<close> and its item before \<open></ul>\<close>, which
  comes only at the end of the input; and the run \<open>- c\<close> read after \<open>- a\<close>, \<open>* b\<close> gets no
  \<open><ul>\<close>, since the unordered list was never closed.
\<close>

theorem unordered_run_next_to_ordered_items:
  "convert_lines [ln ''- a'', ln [], ln ''- b'', ln ''* c''] =
     [ln ''<ul>'', ln ''    <li>a</li>'', ln ''    <li>b</li>'',
      ln ''<ol>'', ln ''    <li>c</li>'', ln ''</ul>'', ln ''</ol>'']
   \<and> convert_lines [ln ''- a'', ln ''* b'', ln ''- c''] =
     [ln ''<ul>'', ln ''    <li>a</li>'', ln ''<ol>'', ln ''    <li>b</li>'',
      ln ''    <li>c</li>'', ln ''</ul>'', ln ''</ol>'']"
  by (simp add: text_eval inline_eval block_eval)

section \<open>The hash and strip substitutions\<close>
























end
